theory Spec2Isabelle
  imports Main "HOL-Library.Word" "HOL-Library.Sublist"
begin

section \<open>The key-value ledger coordinator (core/ledger/kvledger/kv_ledger.go)\<close>

text \<open>
  The coordinator \<open>KVLedger\<close> drives three collaborators that it only knows through Go
  interfaces: the block store, the state transaction manager and the history manager.
  Their implementations live in other packages, so each interface value is a record of its
  methods, and every method is a function on a shared world \<open>'w\<close> that holds whatever
  the collaborators persist. A method returns its Go results paired with the new world.
  Blocks (\<open>*common.Block\<close>) and invalid-transaction records are type parameters; a Go
  pointer that may be nil is an \<open>option\<close>, and a Go \<open>error\<close> that may be nil is an
  \<open>error option\<close>. A call to a collaborator is taken to return; log output is left
  out.
\<close>

subsection \<open>Values\<close>

type_synonym uint64 = "64 word"

text \<open>A Go error value, identified by the message its \<open>Error()\<close> method returns.\<close>

datatype error = Error string

fun error_message :: "error \<Rightarrow> string" where
  "error_message (Error msg) = msg"

text \<open>
  A Go call either returns or panics. A panic carries the error value given to
  \<open>panic\<close>, or is the runtime's nil-dereference.
\<close>

datatype panic = PanicError error | NilDereference

datatype 'a outcome = Return 'a | Panic panic

text \<open>\<open>fmt.Errorf(format + "%s", err)\<close>: the text followed by the message of \<open>err\<close>.\<close>

definition Errorf :: "string \<Rightarrow> error \<Rightarrow> error" where
  "Errorf format err = Error (format @ error_message err)"

record BlockchainInfo =
  Height :: uint64
  CurrentBlockHash :: "8 word list"
  PreviousBlockHash :: "8 word list"

subsection \<open>The collaborator interfaces\<close>

text \<open>
  Only the methods that the modelled operations call are listed. \<open>TxMgr.Commit\<close>,
  \<open>TxMgr.Rollback\<close> and \<open>HistMgr.Commit\<close> carry their interface's name, since the
  ledger has methods of the same names.
\<close>

record ('w, 'blk) BlockStore =
  AddBlock :: "'blk option \<Rightarrow> 'w \<Rightarrow> error option \<times> 'w"
  GetBlockchainInfo :: "'w \<Rightarrow> (BlockchainInfo option \<times> error option) \<times> 'w"
  RetrieveBlockByNumber :: "uint64 \<Rightarrow> 'w \<Rightarrow> ('blk option \<times> error option) \<times> 'w"

record ('w, 'blk, 'itx) TxMgr =
  ValidateAndPrepare ::
    "'blk option \<Rightarrow> bool \<Rightarrow> 'w \<Rightarrow> ('blk option \<times> 'itx list \<times> error option) \<times> 'w"
  TxMgr_Commit :: "'w \<Rightarrow> error option \<times> 'w"
  TxMgr_Rollback :: "'w \<Rightarrow> 'w"
  GetBlockNumFromSavepoint :: "'w \<Rightarrow> (uint64 \<times> error option) \<times> 'w"

record ('w, 'blk) HistMgr =
  HistMgr_Commit :: "'blk option \<Rightarrow> 'w \<Rightarrow> error option \<times> 'w"

subsection \<open>The ledger\<close>

record Conf =
  blockStorageDir :: string
  maxBlockfileSize :: int
  txMgrDBPath :: string

definition HasSuffix :: "string \<Rightarrow> string \<Rightarrow> bool" where
  "HasSuffix s suf = suffix suf s"

definition NewConf :: "string \<Rightarrow> int \<Rightarrow> Conf" where
  "NewConf filesystemPath maxSize =
     (let filesystemPath =
            (if \<not> HasSuffix filesystemPath ''/'' then filesystemPath @ ''/''
             else filesystemPath)
      in \<lparr>blockStorageDir = filesystemPath @ ''blocks'',
          maxBlockfileSize = maxSize,
          txMgrDBPath = filesystemPath @ ''txMgmgt/db''\<rparr>)"

text \<open>
  The ledger struct. \<open>historymgmt\<close> is the only interface field that the constructor
  can leave nil.
\<close>

record ('w, 'blk, 'itx) KVLedger =
  blockStore :: "('w, 'blk) BlockStore"
  txtmgmt :: "('w, 'blk, 'itx) TxMgr"
  historymgmt :: "('w, 'blk) HistMgr option"
  pendingBlockToCommit :: "'blk option"

subsection \<open>Recovery\<close>

definition GetBlockByNumber ::
  "('w, 'blk, 'itx) KVLedger \<Rightarrow> uint64 \<Rightarrow> 'w \<Rightarrow> ('blk option \<times> error option) \<times> 'w" where
  "GetBlockByNumber l blockNumber w = RetrieveBlockByNumber (blockStore l) blockNumber w"

text \<open>
  The \<open>for\<close> loop of \<open>recoverStateDB\<close> (lines 148 to 161). The counter is a
  \<open>uint64\<close>: \<open>blockNumber++\<close> wraps around, so with a height of \<open>2^64 - 1\<close> the
  loop condition never fails. The loop is therefore a partial function, and \<open>None\<close>
  stands for a run that never returns. The fetched block is assigned to
  \<open>pendingBlockToCommit\<close> before the error is inspected, as in the source.
\<close>

partial_function (option) recover_loop ::
  "uint64 \<Rightarrow> uint64 \<Rightarrow> ('w, 'blk, 'itx) KVLedger \<Rightarrow> 'w \<Rightarrow>
     (error option outcome \<times> ('w, 'blk, 'itx) KVLedger \<times> 'w) option" where
  "recover_loop blockNumber height l w =
     (if blockNumber \<le> height then
        (case GetBlockByNumber l blockNumber w of
           ((blk, err), w1) \<Rightarrow>
             (case err of
                Some e \<Rightarrow> Some (Return (Some e), l\<lparr>pendingBlockToCommit := blk\<rparr>, w1)
              | None \<Rightarrow>
                  (case ValidateAndPrepare (txtmgmt l) blk False w1 of
                     ((_, _, err), w2) \<Rightarrow>
                       (case err of
                          Some e \<Rightarrow>
                            Some (Return (Some e), l\<lparr>pendingBlockToCommit := blk\<rparr>, w2)
                        | None \<Rightarrow>
                            (case TxMgr_Commit (txtmgmt l) w2 of
                               (err, w3) \<Rightarrow>
                                 (case err of
                                    Some e \<Rightarrow>
                                      Some (Return (Some e),
                                            l\<lparr>pendingBlockToCommit := blk\<rparr>, w3)
                                  | None \<Rightarrow>
                                      recover_loop (blockNumber + 1) height
                                        (l\<lparr>pendingBlockToCommit := blk\<rparr>) w3))))))
      else Some (Return None, l\<lparr>pendingBlockToCommit := None\<rparr>, w))"

declare recover_loop.simps [code]

text \<open>
  \<open>recoverStateDB\<close>. The error of \<open>GetBlockchainInfo\<close> is dropped
  (\<open>info, _ := ...\<close>), and \<open>info.Height\<close> dereferences the returned pointer.
\<close>

definition recoverStateDB ::
  "('w, 'blk, 'itx) KVLedger \<Rightarrow> 'w \<Rightarrow>
     (error option outcome \<times> ('w, 'blk, 'itx) KVLedger \<times> 'w) option" where
  "recoverStateDB l w =
     (case GetBlockchainInfo (blockStore l) w of
        ((info, _), w1) \<Rightarrow>
          (case info of
             None \<Rightarrow> Some (Panic NilDereference, l, w1)
           | Some info \<Rightarrow>
               if Height info = 0 then Some (Return None, l, w1)
               else
                 (case GetBlockNumFromSavepoint (txtmgmt l) w1 of
                    ((savepointValue, err), w2) \<Rightarrow>
                      (case err of
                         Some e \<Rightarrow> Some (Return (Some e), l, w2)
                       | None \<Rightarrow>
                           if savepointValue = Height info then Some (Return None, l, w2)
                           else if savepointValue > Height info then
                             Some (Return (Some (Error
                               ''BlockStorage height is behind savepoint by %d blocks. Recovery the BlockStore first'')),
                               l, w2)
                           else recover_loop (savepointValue + 1) (Height info) l w2))))"

subsection \<open>Construction\<close>

text \<open>
  \<open>NewKVLedger\<close> reads the process configuration (package \<open>ledgerconfig\<close>) and calls
  the constructors of the storage packages. Neither is part of this file, so both are
  parameters: the configuration as the values its functions return, the constructors as
  functions that hand out an interface value and may touch the world.
\<close>

record CouchDBDef =
  URL :: string
  Username :: string
  Password :: string

record ledgerconfig =
  IsCouchDBEnabled :: bool
  IsHistoryDBEnabled :: bool
  GetCouchDBDefinition :: CouchDBDef

datatype IndexableAttr =
  IndexableAttrBlockHash | IndexableAttrBlockNum | IndexableAttrTxID
| IndexableAttrBlockNumTranNum

record ('w, 'blk, 'itx) constructors =
  NewFsBlockStore ::
    "string \<Rightarrow> int \<Rightarrow> IndexableAttr list \<Rightarrow> 'w \<Rightarrow> ('w, 'blk) BlockStore \<times> 'w"
  NewCouchDBTxMgr ::
    "string \<Rightarrow> string \<Rightarrow> string \<Rightarrow> string \<Rightarrow> string \<Rightarrow> 'w \<Rightarrow>
       ('w, 'blk, 'itx) TxMgr \<times> 'w"
  NewLockBasedTxMgr :: "string \<Rightarrow> 'w \<Rightarrow> ('w, 'blk, 'itx) TxMgr \<times> 'w"
  NewCouchDBHistMgr ::
    "string \<Rightarrow> string \<Rightarrow> string \<Rightarrow> string \<Rightarrow> 'w \<Rightarrow> ('w, 'blk) HistMgr \<times> 'w"

text \<open>
  Lines 73 to 116 of \<open>NewKVLedger\<close>: the collaborators are created and the struct is
  filled in, with no pending block.
\<close>

definition buildKVLedger ::
  "ledgerconfig \<Rightarrow> ('w, 'blk, 'itx) constructors \<Rightarrow> Conf \<Rightarrow> 'w \<Rightarrow>
     ('w, 'blk, 'itx) KVLedger \<times> 'w" where
  "buildKVLedger cfg new conf w =
     (let attrsToIndex = [IndexableAttrBlockHash, IndexableAttrBlockNum,
                          IndexableAttrTxID, IndexableAttrBlockNumTranNum];
          (blockStore', w1) =
            NewFsBlockStore new (blockStorageDir conf) (maxBlockfileSize conf) attrsToIndex w;
          (txmgmt', w2) =
            (if IsCouchDBEnabled cfg then
               (let couchDBDef = GetCouchDBDefinition cfg
                in NewCouchDBTxMgr new (txMgrDBPath conf) (URL couchDBDef) ''system''
                     (Username couchDBDef) (Password couchDBDef) w1)
             else NewLockBasedTxMgr new (txMgrDBPath conf) w1);
          (historymgmt', w3) =
            (if IsHistoryDBEnabled cfg then
               (let couchDBDef = GetCouchDBDefinition cfg;
                    (h, w') = NewCouchDBHistMgr new (URL couchDBDef) ''system_history''
                                (Username couchDBDef) (Password couchDBDef) w2
                in (Some h, w'))
             else (None, w2))
      in (\<lparr>blockStore = blockStore', txtmgmt = txmgmt', historymgmt = historymgmt',
           pendingBlockToCommit = None\<rparr>, w3))"

text \<open>
  \<open>NewKVLedger\<close>: an error of the recovery becomes a panic; otherwise the ledger is
  returned (with a nil error, which is left out).
\<close>

definition NewKVLedger ::
  "ledgerconfig \<Rightarrow> ('w, 'blk, 'itx) constructors \<Rightarrow> Conf \<Rightarrow> 'w \<Rightarrow>
     (('w, 'blk, 'itx) KVLedger outcome \<times> 'w) option" where
  "NewKVLedger cfg new conf w =
     (case buildKVLedger cfg new conf w of
        (l, w0) \<Rightarrow>
          (case recoverStateDB l w0 of
             None \<Rightarrow> None
           | Some (Panic p, l', w') \<Rightarrow> Some (Panic p, w')
           | Some (Return (Some err), l', w') \<Rightarrow>
               Some (Panic (PanicError (Errorf ''Error during state DB recovery:'' err)), w')
           | Some (Return None, l', w') \<Rightarrow> Some (Return l', w')))"

subsection \<open>The commit protocol\<close>

definition Prune ::
  "('w, 'blk, 'itx) KVLedger \<Rightarrow> 'policy \<Rightarrow> 'w \<Rightarrow>
     error option \<times> ('w, 'blk, 'itx) KVLedger \<times> 'w" where
  "Prune l policy w = (Some (Error ''Not yet implemented''), l, w)"

definition RemoveInvalidTransactionsAndPrepare ::
  "('w, 'blk, 'itx) KVLedger \<Rightarrow> 'blk option \<Rightarrow> 'w \<Rightarrow>
     ('blk option \<times> 'itx list \<times> error option) \<times> ('w, 'blk, 'itx) KVLedger \<times> 'w" where
  "RemoveInvalidTransactionsAndPrepare l block w =
     (case ValidateAndPrepare (txtmgmt l) block True w of
        ((validBlock, invalidTxs, err), w1) \<Rightarrow>
          ((validBlock, invalidTxs, err),
           (if err = None then l\<lparr>pendingBlockToCommit := validBlock\<rparr> else l),
           w1))"

text \<open>
  \<open>Commit\<close>. Calling \<open>l.historymgmt.Commit\<close> on a nil interface value is a
  nil-dereference panic of the runtime.
\<close>

definition Commit ::
  "ledgerconfig \<Rightarrow> ('w, 'blk, 'itx) KVLedger \<Rightarrow> 'w \<Rightarrow>
     error option outcome \<times> ('w, 'blk, 'itx) KVLedger \<times> 'w" where
  "Commit cfg l w =
     (if pendingBlockToCommit l = None then
        (Panic (PanicError (Error
           ''Nothing to commit. RemoveInvalidTransactionsAndPrepare() method should have been called and should not have thrown error'')),
         l, w)
      else
        (case AddBlock (blockStore l) (pendingBlockToCommit l) w of
           (Some err, w1) \<Rightarrow> (Return (Some err), l, w1)
         | (None, w1) \<Rightarrow>
             (case TxMgr_Commit (txtmgmt l) w1 of
                (Some err, w2) \<Rightarrow>
                  (Panic (PanicError (Errorf ''Error during commit to txmgr:'' err)), l, w2)
              | (None, w2) \<Rightarrow>
                  if IsHistoryDBEnabled cfg then
                    (case historymgmt l of
                       None \<Rightarrow> (Panic NilDereference, l, w2)
                     | Some h \<Rightarrow>
                         (case HistMgr_Commit h (pendingBlockToCommit l) w2 of
                            (Some err, w3) \<Rightarrow>
                              (Panic (PanicError
                                 (Errorf ''Error during commit to txthistory:'' err)), l, w3)
                          | (None, w3) \<Rightarrow>
                              (Return None, l\<lparr>pendingBlockToCommit := None\<rparr>, w3)))
                  else (Return None, l\<lparr>pendingBlockToCommit := None\<rparr>, w2))))"

definition Rollback ::
  "('w, 'blk, 'itx) KVLedger \<Rightarrow> 'w \<Rightarrow> ('w, 'blk, 'itx) KVLedger \<times> 'w" where
  "Rollback l w = (l\<lparr>pendingBlockToCommit := None\<rparr>, TxMgr_Rollback (txtmgmt l) w)"

subsection \<open>Recording the calls made to the collaborators\<close>

text \<open>
  Several properties are about which collaborator methods the coordinator calls, with
  which arguments and in which order. A collaborator is wrapped so that each call is also
  appended to a log kept next to the world; the wrapped collaborator behaves as the
  original one on the world itself. The coordinator's code is not changed: it runs on a
  ledger whose interface values are the wrapped ones.
\<close>

datatype 'blk call =
  CallAddBlock "'blk option"
| CallGetBlockchainInfo
| CallRetrieveBlockByNumber uint64
| CallValidateAndPrepare "'blk option" bool
| CallTxMgrCommit
| CallTxMgrRollback
| CallGetBlockNumFromSavepoint
| CallHistMgrCommit "'blk option"

definition recorded ::
  "'blk call \<Rightarrow> ('w \<Rightarrow> 'r \<times> 'w) \<Rightarrow> 'w \<times> 'blk call list \<Rightarrow> 'r \<times> 'w \<times> 'blk call list" where
  "recorded c f = (\<lambda>(w, log). case f w of (r, w') \<Rightarrow> (r, w', log @ [c]))"

definition recBlockStore :: "('w, 'blk) BlockStore \<Rightarrow> ('w \<times> 'blk call list, 'blk) BlockStore" where
  "recBlockStore bs =
     \<lparr>AddBlock = (\<lambda>b. recorded (CallAddBlock b) (AddBlock bs b)),
      GetBlockchainInfo = recorded CallGetBlockchainInfo (GetBlockchainInfo bs),
      RetrieveBlockByNumber =
        (\<lambda>n. recorded (CallRetrieveBlockByNumber n) (RetrieveBlockByNumber bs n))\<rparr>"

definition recTxMgr ::
  "('w, 'blk, 'itx) TxMgr \<Rightarrow> ('w \<times> 'blk call list, 'blk, 'itx) TxMgr" where
  "recTxMgr tm =
     \<lparr>ValidateAndPrepare =
        (\<lambda>b f. recorded (CallValidateAndPrepare b f) (ValidateAndPrepare tm b f)),
      TxMgr_Commit = recorded CallTxMgrCommit (TxMgr_Commit tm),
      TxMgr_Rollback = (\<lambda>(w, log). (TxMgr_Rollback tm w, log @ [CallTxMgrRollback])),
      GetBlockNumFromSavepoint =
        recorded CallGetBlockNumFromSavepoint (GetBlockNumFromSavepoint tm)\<rparr>"

definition recHistMgr :: "('w, 'blk) HistMgr \<Rightarrow> ('w \<times> 'blk call list, 'blk) HistMgr" where
  "recHistMgr h =
     \<lparr>HistMgr_Commit = (\<lambda>b. recorded (CallHistMgrCommit b) (HistMgr_Commit h b))\<rparr>"

definition recLedger ::
  "('w, 'blk, 'itx) KVLedger \<Rightarrow> ('w \<times> 'blk call list, 'blk, 'itx) KVLedger" where
  "recLedger l =
     \<lparr>blockStore = recBlockStore (blockStore l),
      txtmgmt = recTxMgr (txtmgmt l),
      historymgmt = map_option recHistMgr (historymgmt l),
      pendingBlockToCommit = pendingBlockToCommit l\<rparr>"

subsection \<open>The recovery replay as the specification words it\<close>

text \<open>
  The specification describes the replay as a walk over the missing heights: for each
  height in increasing order, fetch the block by number, validate and prepare it with
  invalid-transaction filtering off, commit to the state transaction manager; the first
  failing step ends the walk with its error. \<open>replay\<close> is that walk over an explicit list
  of heights. It is written from the specification, not from the loop, and returns the
  error (if any), the world it leaves and the collaborator calls it makes.
\<close>

fun replay ::
  "('w, 'blk, 'itx) KVLedger \<Rightarrow> uint64 list \<Rightarrow> 'w \<Rightarrow> error option \<times> 'w \<times> 'blk call list" where
  "replay l [] w = (None, w, [])"
| "replay l (n # ns) w =
     (case RetrieveBlockByNumber (blockStore l) n w of
        ((blk, Some e), w1) \<Rightarrow> (Some e, w1, [CallRetrieveBlockByNumber n])
      | ((blk, None), w1) \<Rightarrow>
          (case ValidateAndPrepare (txtmgmt l) blk False w1 of
             ((_, _, Some e), w2) \<Rightarrow>
               (Some e, w2, [CallRetrieveBlockByNumber n, CallValidateAndPrepare blk False])
           | ((_, _, None), w2) \<Rightarrow>
               (case TxMgr_Commit (txtmgmt l) w2 of
                  (Some e, w3) \<Rightarrow>
                    (Some e, w3,
                     [CallRetrieveBlockByNumber n, CallValidateAndPrepare blk False,
                      CallTxMgrCommit])
                | (None, w3) \<Rightarrow>
                    (case replay l ns w3 of
                       (r, w', cs) \<Rightarrow>
                         (r, w',
                          [CallRetrieveBlockByNumber n, CallValidateAndPrepare blk False,
                           CallTxMgrCommit] @ cs)))))"

text \<open>The heights that a list of calls fetches, in the order of the calls.\<close>

fun fetched :: "'blk call list \<Rightarrow> uint64 list" where
  "fetched [] = []"
| "fetched (CallRetrieveBlockByNumber n # cs) = n # fetched cs"
| "fetched (c # cs) = fetched cs"

text \<open>The heights \<open>s + 1, ..., h\<close>, in increasing order.\<close>

definition missing_heights :: "uint64 \<Rightarrow> uint64 \<Rightarrow> uint64 list" where
  "missing_heights s h = map of_nat [Suc (unat s) ..< Suc (unat h)]"

text \<open>
  Recovery of ledger \<open>l\<close> from world \<open>w\<close> replays the heights \<open>s + 1, ..., h\<close>:
  after the two reads (which leave the world \<open>w2\<close>) it returns what \<open>replay\<close> returns on
  these heights, leaves the world that \<open>replay\<close> leaves, and has no pending block when it
  returns nil; and with recording collaborators the calls logged after the two reads are
  exactly the calls of \<open>replay\<close>.
\<close>

definition recovery_replays ::
  "('w, 'blk, 'itx) KVLedger \<Rightarrow> 'w \<Rightarrow> uint64 \<Rightarrow> uint64 \<Rightarrow> 'w \<Rightarrow> bool" where
  "recovery_replays l w s h w2 =
     (case replay l (missing_heights s h) w2 of
        (r, w', cs) \<Rightarrow>
          (case recoverStateDB l w of
             None \<Rightarrow> False
           | Some (out, l', wl) \<Rightarrow>
               out = Return r \<and> wl = w' \<and>
               (r = None \<longrightarrow> pendingBlockToCommit l' = None)) \<and>
          (case recoverStateDB (recLedger l) (w, []) of
             None \<Rightarrow> False
           | Some (out, l', wl) \<Rightarrow>
               out = Return r \<and>
               wl = (w', [CallGetBlockchainInfo, CallGetBlockNumFromSavepoint] @ cs)))"

subsection \<open>The contract of the state transaction manager on staged updates\<close>

text \<open>
  Modelled from the spec: the bodies of \<open>TxMgr.ValidateAndPrepare\<close> and
  \<open>TxMgr.Rollback\<close> are not part of this file. The specification says that the state
  update set computed by validate-and-prepare is in memory and not yet durable, that it
  exists only between prepare and commit or rollback, and that rollback discards it
  without touching durable storage. For a view \<open>durable\<close> of the world (the committed
  state, the savepoint, the block-store height), this reads: preparing does not change the
  view, rolling back does not change the view, and rolling back a second time changes
  nothing, since the staged set is already gone.
\<close>

definition staging_contract :: "('w \<Rightarrow> 'd) \<Rightarrow> ('w, 'blk, 'itx) TxMgr \<Rightarrow> bool" where
  "staging_contract durable tm \<longleftrightarrow>
     (\<forall>b f w. durable (snd (ValidateAndPrepare tm b f w)) = durable w) \<and>
     (\<forall>w. durable (TxMgr_Rollback tm w) = durable w) \<and>
     (\<forall>w. TxMgr_Rollback tm (TxMgr_Rollback tm w) = TxMgr_Rollback tm w)"

subsection \<open>Test doubles for the collaborators\<close>

text \<open>
  Concrete collaborators, used to run the coordinator on concrete inputs. The first set
  keeps everything in memory. A block is its number together with one flag per
  transaction, telling whether the transaction passes validation. The state transaction
  manager stages the block it is given and, when asked to validate
  (second argument \<open>True\<close>), hands back the block without its failing transactions, as
  the comment on \<open>RemoveInvalidTransactionsAndPrepare\<close> describes, together with the
  positions of the failing ones. Blocks are numbered from 1.
\<close>

type_synonym mblock = "uint64 \<times> bool list"

record mem =
  mem_blocks :: "mblock list"
  mem_savepoint :: uint64
  mem_staged :: "mblock option"
  mem_history :: "mblock list"

definition memBlockStore :: "(mem, mblock) BlockStore" where
  "memBlockStore =
     \<lparr>AddBlock = (\<lambda>b w. case b of
          None \<Rightarrow> (Some (Error ''nil block''), w)
        | Some blk \<Rightarrow> (None, w\<lparr>mem_blocks := mem_blocks w @ [blk]\<rparr>)),
      GetBlockchainInfo = (\<lambda>w.
        ((Some \<lparr>Height = of_nat (length (mem_blocks w)),
                CurrentBlockHash = [], PreviousBlockHash = []\<rparr>, None), w)),
      RetrieveBlockByNumber = (\<lambda>n w.
        if 1 \<le> unat n \<and> unat n \<le> length (mem_blocks w)
        then ((Some (mem_blocks w ! (unat n - 1)), None), w)
        else ((None, Some (Error ''block not found'')), w))\<rparr>"

definition memTxMgr :: "(mem, mblock, nat) TxMgr" where
  "memTxMgr =
     \<lparr>ValidateAndPrepare = (\<lambda>b validate w. case b of
          None \<Rightarrow> ((None, [], Some (Error ''nil block'')), w)
        | Some (n, txs) \<Rightarrow>
            if validate
            then ((Some (n, filter (\<lambda>ok. ok) txs),
                   filter (\<lambda>i. \<not> txs ! i) [0 ..< length txs], None),
                  w\<lparr>mem_staged := Some (n, filter (\<lambda>ok. ok) txs)\<rparr>)
            else ((Some (n, txs), [], None), w\<lparr>mem_staged := Some (n, txs)\<rparr>)),
      TxMgr_Commit = (\<lambda>w. case mem_staged w of
          None \<Rightarrow> (Some (Error ''nothing staged''), w)
        | Some (n, txs) \<Rightarrow> (None, w\<lparr>mem_savepoint := n, mem_staged := None\<rparr>)),
      TxMgr_Rollback = (\<lambda>w. w\<lparr>mem_staged := None\<rparr>),
      GetBlockNumFromSavepoint = (\<lambda>w. ((mem_savepoint w, None), w))\<rparr>"

definition memHistMgr :: "(mem, mblock) HistMgr" where
  "memHistMgr =
     \<lparr>HistMgr_Commit = (\<lambda>b w. case b of
          None \<Rightarrow> (Some (Error ''nil block''), w)
        | Some blk \<Rightarrow> (None, w\<lparr>mem_history := mem_history w @ [blk]\<rparr>))\<rparr>"

definition memLedger :: "bool \<Rightarrow> mblock option \<Rightarrow> (mem, mblock, nat) KVLedger" where
  "memLedger hist pending =
     \<lparr>blockStore = memBlockStore, txtmgmt = memTxMgr,
      historymgmt = (if hist then Some memHistMgr else None),
      pendingBlockToCommit = pending\<rparr>"

definition memConstructors :: "(mem, mblock, nat) constructors" where
  "memConstructors =
     \<lparr>NewFsBlockStore = (\<lambda>dir size attrs w. (memBlockStore, w)),
      NewCouchDBTxMgr = (\<lambda>path url name user pw w. (memTxMgr, w)),
      NewLockBasedTxMgr = (\<lambda>path w. (memTxMgr, w)),
      NewCouchDBHistMgr = (\<lambda>url name user pw w. (memHistMgr, w))\<rparr>"

definition memConfig :: "bool \<Rightarrow> ledgerconfig" where
  "memConfig hist =
     \<lparr>IsCouchDBEnabled = False, IsHistoryDBEnabled = hist,
      GetCouchDBDefinition = \<lparr>URL = ''127.0.0.1:5984'', Username = [], Password = []\<rparr>\<rparr>"

text \<open>An empty ledger.\<close>

definition fresh :: mem where
  "fresh = \<lparr>mem_blocks = [], mem_savepoint = 0, mem_staged = None, mem_history = []\<rparr>"

text \<open>
  What the in-memory collaborators hold durably: the stored blocks (and with them the
  height), the savepoint, which stands for the committed state, and the history.
\<close>

definition mem_durable :: "mem \<Rightarrow> mblock list \<times> uint64 \<times> mblock list" where
  "mem_durable w = (mem_blocks w, mem_savepoint w, mem_history w)"

text \<open>A block store of height 5 whose state database has savepoint 3.\<close>

definition lagging :: mem where
  "lagging =
     \<lparr>mem_blocks = [(1, [True]), (2, [True, False]), (3, []), (4, [True]), (5, [False])],
      mem_savepoint = 3, mem_staged = None, mem_history = []\<rparr>"

text \<open>
  A block store of height 3 whose state database claims savepoint 5, and an empty block
  store whose state database claims savepoint 5.
\<close>

definition ahead :: mem where
  "ahead =
     \<lparr>mem_blocks = [(1, [True]), (2, [True]), (3, [True])],
      mem_savepoint = 5, mem_staged = None, mem_history = []\<rparr>"

definition emptyAhead :: mem where
  "emptyAhead = \<lparr>mem_blocks = [], mem_savepoint = 5, mem_staged = None, mem_history = []\<rparr>"

text \<open>A block store of height 2 with savepoint 2.\<close>

definition inSync :: mem where
  "inSync =
     \<lparr>mem_blocks = [(1, [True]), (2, [True, True])],
      mem_savepoint = 2, mem_staged = None, mem_history = []\<rparr>"

text \<open>Height 1, savepoint 1, and block 2 staged by the state transaction manager.\<close>

definition prepared :: mem where
  "prepared =
     \<lparr>mem_blocks = [(1, [True])], mem_savepoint = 1, mem_staged = Some (2, [True, True]),
      mem_history = [(1, [True])]\<rparr>"

text \<open>
  The second set is scripted: the collaborators keep no state (the world is \<open>unit\<close>)
  and answer every call with a fixed reply. A block is its number.
\<close>

definition stubBlockStore ::
  "error option \<Rightarrow> BlockchainInfo option \<times> error option \<Rightarrow>
     (uint64 \<Rightarrow> uint64 option \<times> error option) \<Rightarrow> (unit, uint64) BlockStore" where
  "stubBlockStore add info fetch =
     \<lparr>AddBlock = (\<lambda>b w. (add, w)),
      GetBlockchainInfo = (\<lambda>w. (info, w)),
      RetrieveBlockByNumber = (\<lambda>n w. (fetch n, w))\<rparr>"

definition stubTxMgr ::
  "error option \<Rightarrow> error option \<Rightarrow> uint64 \<times> error option \<Rightarrow> (unit, uint64, nat) TxMgr" where
  "stubTxMgr prepare commit savepoint =
     \<lparr>ValidateAndPrepare = (\<lambda>b validate w. ((b, [], prepare), w)),
      TxMgr_Commit = (\<lambda>w. (commit, w)),
      TxMgr_Rollback = (\<lambda>w. w),
      GetBlockNumFromSavepoint = (\<lambda>w. (savepoint, w))\<rparr>"

definition stubInfo :: "uint64 \<Rightarrow> BlockchainInfo" where
  "stubInfo h = \<lparr>Height = h, CurrentBlockHash = [], PreviousBlockHash = []\<rparr>"

text \<open>
  A block store of height \<open>2^64 - 1\<close> with savepoint \<open>2^64 - 2\<close>. Every block is
  there except block 0.
\<close>

definition fullLedger :: "(unit, uint64, nat) KVLedger" where
  "fullLedger =
     \<lparr>blockStore =
        stubBlockStore None (Some (stubInfo (- 1)), None)
          (\<lambda>n. if n = 0 then (None, Some (Error ''block not found'')) else (Some n, None)),
      txtmgmt = stubTxMgr None None (- 2, None),
      historymgmt = None,
      pendingBlockToCommit = None\<rparr>"

text \<open>
  The same heights, but block 0 is there as well: no call ever fails.
\<close>

definition endlessLedger :: "(unit, uint64, nat) KVLedger" where
  "endlessLedger =
     \<lparr>blockStore = stubBlockStore None (Some (stubInfo (- 1)), None) (\<lambda>n. (Some n, None)),
      txtmgmt = stubTxMgr None None (- 2, None),
      historymgmt = None,
      pendingBlockToCommit = None\<rparr>"

text \<open>A ledger with pending block 7 whose block store refuses every append.\<close>

definition fullDiskLedger :: "(unit, uint64, nat) KVLedger" where
  "fullDiskLedger =
     \<lparr>blockStore =
        stubBlockStore (Some (Error ''no space left on device'')) (Some (stubInfo 6), None)
          (\<lambda>n. (Some n, None)),
      txtmgmt = stubTxMgr None None (6, None),
      historymgmt = None,
      pendingBlockToCommit = Some 7\<rparr>"

text \<open>
  A ledger whose block store answers the blockchain-info read with an info struct of
  height \<open>h\<close> together with an error.
\<close>

definition brokenInfoLedger :: "uint64 \<Rightarrow> (unit, uint64, nat) KVLedger" where
  "brokenInfoLedger h =
     \<lparr>blockStore =
        stubBlockStore None (Some (stubInfo h), Some (Error ''blockchain info unavailable''))
          (\<lambda>n. (Some n, None)),
      txtmgmt = stubTxMgr None None (h, None),
      historymgmt = None,
      pendingBlockToCommit = None\<rparr>"

text \<open>Constructors that hand out the collaborators of \<open>brokenInfoLedger h\<close>.\<close>

definition brokenInfoConstructors :: "uint64 \<Rightarrow> (unit, uint64, nat) constructors" where
  "brokenInfoConstructors h =
     \<lparr>NewFsBlockStore = (\<lambda>dir size attrs w. (blockStore (brokenInfoLedger h), w)),
      NewCouchDBTxMgr = (\<lambda>path url name user pw w. (txtmgmt (brokenInfoLedger h), w)),
      NewLockBasedTxMgr = (\<lambda>path w. (txtmgmt (brokenInfoLedger h), w)),
      NewCouchDBHistMgr = (\<lambda>url name user pw w. (\<lparr>HistMgr_Commit = (\<lambda>b w. (None, w))\<rparr>, w))\<rparr>"

section \<open>Properties\<close>

subsection \<open>Calls through the recording wrappers\<close>

lemma recLedger_sel [simp]:
  "blockStore (recLedger l) = recBlockStore (blockStore l)"
  "txtmgmt (recLedger l) = recTxMgr (txtmgmt l)"
  "historymgmt (recLedger l) = map_option recHistMgr (historymgmt l)"
  "pendingBlockToCommit (recLedger l) = pendingBlockToCommit l"
  by (simp_all add: recLedger_def)

lemma recLedger_pending_update [simp]:
  "(recLedger l)\<lparr>pendingBlockToCommit := b\<rparr> = recLedger (l\<lparr>pendingBlockToCommit := b\<rparr>)"
  by (simp add: recLedger_def)

lemma rec_AddBlock [simp]:
  "AddBlock (recBlockStore bs) b (w, log) =
     (case AddBlock bs b w of (r, w') \<Rightarrow> (r, w', log @ [CallAddBlock b]))"
  by (simp add: recBlockStore_def recorded_def)

lemma rec_GetBlockchainInfo [simp]:
  "GetBlockchainInfo (recBlockStore bs) (w, log) =
     (case GetBlockchainInfo bs w of (r, w') \<Rightarrow> (r, w', log @ [CallGetBlockchainInfo]))"
  by (simp add: recBlockStore_def recorded_def)

lemma rec_RetrieveBlockByNumber [simp]:
  "RetrieveBlockByNumber (recBlockStore bs) n (w, log) =
     (case RetrieveBlockByNumber bs n w of
        (r, w') \<Rightarrow> (r, w', log @ [CallRetrieveBlockByNumber n]))"
  by (simp add: recBlockStore_def recorded_def)

lemma rec_ValidateAndPrepare [simp]:
  "ValidateAndPrepare (recTxMgr tm) b f (w, log) =
     (case ValidateAndPrepare tm b f w of
        (r, w') \<Rightarrow> (r, w', log @ [CallValidateAndPrepare b f]))"
  by (simp add: recTxMgr_def recorded_def)

lemma rec_TxMgr_Commit [simp]:
  "TxMgr_Commit (recTxMgr tm) (w, log) =
     (case TxMgr_Commit tm w of (r, w') \<Rightarrow> (r, w', log @ [CallTxMgrCommit]))"
  by (simp add: recTxMgr_def recorded_def)

lemma rec_TxMgr_Rollback [simp]:
  "TxMgr_Rollback (recTxMgr tm) (w, log) = (TxMgr_Rollback tm w, log @ [CallTxMgrRollback])"
  by (simp add: recTxMgr_def)

lemma rec_GetBlockNumFromSavepoint [simp]:
  "GetBlockNumFromSavepoint (recTxMgr tm) (w, log) =
     (case GetBlockNumFromSavepoint tm w of
        (r, w') \<Rightarrow> (r, w', log @ [CallGetBlockNumFromSavepoint]))"
  by (simp add: recTxMgr_def recorded_def)

lemma rec_HistMgr_Commit [simp]:
  "HistMgr_Commit (recHistMgr h) b (w, log) =
     (case HistMgr_Commit h b w of (r, w') \<Rightarrow> (r, w', log @ [CallHistMgrCommit b]))"
  by (simp add: recHistMgr_def recorded_def)

subsection \<open>The recovery loop walks the missing heights\<close>

lemma replay_pending [simp]:
  "replay (l\<lparr>pendingBlockToCommit := p\<rparr>) ns w = replay l ns w"
  by (induction ns arbitrary: w) (simp_all split: prod.splits option.splits)

lemma unat_succ: "(bn::uint64) \<le> h \<Longrightarrow> h \<noteq> - 1 \<Longrightarrow> unat (bn + 1) = Suc (unat bn)"
  by (metis add.commute unatSuc word_order.extremum_unique add_eq_0_iff2 minus_equation_iff)

text \<open>
  Below the largest \<open>uint64\<close> the counter does not wrap, and the loop started at
  \<open>bn\<close> is the walk over \<open>bn, ..., h\<close>. The proof is by induction on the number of
  heights left; each step unfolds the loop once.
\<close>

lemma recover_loop_replay:
  assumes "h \<noteq> - 1"
      and "unat bn \<le> Suc (unat h)"
      and "replay l (map of_nat [unat bn ..< Suc (unat h)]) w = (r, w', cs)"
  shows "\<exists>l'. recover_loop bn h (recLedger l) (w, log) =
                 Some (Return r, recLedger l', w', log @ cs) \<and>
              (r = None \<longrightarrow> pendingBlockToCommit l' = None)"
  using assms
proof (induction "Suc (unat h) - unat bn" arbitrary: bn l w log r w' cs)
  case 0
  then have stop: "unat bn = Suc (unat h)" by simp
  then have gt: "\<not> bn \<le> h" by (simp add: word_le_nat_alt)
  from 0 stop have "r = None" "w' = w" "cs = []" by simp_all
  with gt show ?case
    by (subst recover_loop.simps) (auto intro: exI [of _ "l\<lparr>pendingBlockToCommit := None\<rparr>"])
next
  case (Suc k)
  let ?step = "\<lambda>blk. [CallRetrieveBlockByNumber bn, CallValidateAndPrepare blk False,
                       CallTxMgrCommit]"
  from Suc have le: "bn \<le> h" by (simp add: word_le_nat_alt)
  have nxt: "unat (bn + 1) = Suc (unat bn)" using le Suc.prems(1) by (rule unat_succ)
  have "unat bn < Suc (unat h)" using le by (simp add: word_le_nat_alt)
  then have "[unat bn ..< Suc (unat h)] = unat bn # [Suc (unat bn) ..< Suc (unat h)]"
    by (rule upt_conv_Cons)
  then have lst: "map of_nat [unat bn ..< Suc (unat h)] =
                    bn # map of_nat [unat (bn + 1) ..< Suc (unat h)]"
    by (simp only: nxt list.map of_nat_unat ucast_id)
  have k: "k = Suc (unat h) - unat (bn + 1)" using Suc.hyps(2) nxt by simp
  have bound: "unat (bn + 1) \<le> Suc (unat h)" using le nxt by (simp add: word_le_nat_alt)
  note IH = Suc.hyps(1) [OF k Suc.prems(1) bound]
  obtain blk e1 w1 where f: "RetrieveBlockByNumber (blockStore l) bn w = ((blk, e1), w1)"
    by (metis surj_pair)
  obtain vb itx e2 w2 where
    v: "ValidateAndPrepare (txtmgmt l) blk False w1 = ((vb, itx, e2), w2)"
    by (metis surj_pair)
  obtain e3 w3 where c: "TxMgr_Commit (txtmgmt l) w2 = (e3, w3)"
    by (metis surj_pair)
  show ?case
  proof (cases "e1 = None \<and> e2 = None \<and> e3 = None")
    case False
    then show ?thesis
      using Suc.prems(3) le f v c unfolding lst
      by (subst recover_loop.simps)
         (auto simp: GetBlockByNumber_def split: option.splits
               intro: exI [of _ "l\<lparr>pendingBlockToCommit := blk\<rparr>"])
  next
    case True
    obtain r0 w0 cs0 where rest:
      "replay l (map of_nat [unat (bn + 1) ..< Suc (unat h)]) w3 = (r0, w0, cs0)"
      by (metis surj_pair)
    then have rest': "replay (l\<lparr>pendingBlockToCommit := blk\<rparr>)
        (map of_nat [unat (bn + 1) ..< Suc (unat h)]) w3 = (r0, w0, cs0)"
      by simp
    from IH [OF rest', of "log @ ?step blk"]
    obtain l' where
      l': "recover_loop (bn + 1) h (recLedger (l\<lparr>pendingBlockToCommit := blk\<rparr>))
             (w3, log @ ?step blk) =
           Some (Return r0, recLedger l', w0, (log @ ?step blk) @ cs0)"
      and p: "r0 = None \<longrightarrow> pendingBlockToCommit l' = None"
      by blast
    have res: "r = r0" "w' = w0" "cs = ?step blk @ cs0"
      using Suc.prems(3) True f v c rest unfolding lst by simp_all
    show ?thesis
      using True le f v c l' p res
      by (subst recover_loop.simps) (auto simp: GetBlockByNumber_def intro: exI [of _ l'])
  qed
qed

text \<open>The same walk on the collaborators as they are, without the log.\<close>

lemma recover_loop_replay_plain:
  assumes "h \<noteq> - 1"
      and "unat bn \<le> Suc (unat h)"
      and "replay l (map of_nat [unat bn ..< Suc (unat h)]) w = (r, w', cs)"
  shows "\<exists>l'. recover_loop bn h l w = Some (Return r, l', w') \<and>
              (r = None \<longrightarrow> pendingBlockToCommit l' = None)"
  using assms
proof (induction "Suc (unat h) - unat bn" arbitrary: bn l w r w' cs)
  case 0
  then have stop: "unat bn = Suc (unat h)" by simp
  then have gt: "\<not> bn \<le> h" by (simp add: word_le_nat_alt)
  from 0 stop have "r = None" "w' = w" by simp_all
  with gt show ?case
    by (subst recover_loop.simps) simp
next
  case (Suc k)
  from Suc have le: "bn \<le> h" by (simp add: word_le_nat_alt)
  have nxt: "unat (bn + 1) = Suc (unat bn)" using le Suc.prems(1) by (rule unat_succ)
  have "unat bn < Suc (unat h)" using le by (simp add: word_le_nat_alt)
  then have "[unat bn ..< Suc (unat h)] = unat bn # [Suc (unat bn) ..< Suc (unat h)]"
    by (rule upt_conv_Cons)
  then have lst: "map of_nat [unat bn ..< Suc (unat h)] =
                    bn # map of_nat [unat (bn + 1) ..< Suc (unat h)]"
    by (simp only: nxt list.map of_nat_unat ucast_id)
  have k: "k = Suc (unat h) - unat (bn + 1)" using Suc.hyps(2) nxt by simp
  have bound: "unat (bn + 1) \<le> Suc (unat h)" using le nxt by (simp add: word_le_nat_alt)
  note IH = Suc.hyps(1) [OF k Suc.prems(1) bound]
  obtain blk e1 w1 where f: "RetrieveBlockByNumber (blockStore l) bn w = ((blk, e1), w1)"
    by (metis surj_pair)
  obtain vb itx e2 w2 where
    v: "ValidateAndPrepare (txtmgmt l) blk False w1 = ((vb, itx, e2), w2)"
    by (metis surj_pair)
  obtain e3 w3 where c: "TxMgr_Commit (txtmgmt l) w2 = (e3, w3)"
    by (metis surj_pair)
  show ?case
  proof (cases "e1 = None \<and> e2 = None \<and> e3 = None")
    case False
    then show ?thesis
      using Suc.prems(3) le f v c unfolding lst
      by (subst recover_loop.simps)
         (auto simp: GetBlockByNumber_def split: option.splits)
  next
    case True
    obtain r0 w0 cs0 where rest:
      "replay l (map of_nat [unat (bn + 1) ..< Suc (unat h)]) w3 = (r0, w0, cs0)"
      by (metis surj_pair)
    then have rest': "replay (l\<lparr>pendingBlockToCommit := blk\<rparr>)
        (map of_nat [unat (bn + 1) ..< Suc (unat h)]) w3 = (r0, w0, cs0)"
      by simp
    from IH [OF rest']
    obtain l' where
      l': "recover_loop (bn + 1) h (l\<lparr>pendingBlockToCommit := blk\<rparr>) w3 =
           Some (Return r0, l', w0)"
      and p: "r0 = None \<longrightarrow> pendingBlockToCommit l' = None"
      by blast
    have res: "r = r0" "w' = w0"
      using Suc.prems(3) True f v c rest unfolding lst by simp_all
    show ?thesis
      using True le f v c l' p res
      by (subst recover_loop.simps) (auto simp: GetBlockByNumber_def)
  qed
qed

lemma unat_max64: "unat (- 1 :: uint64) = 18446744073709551615"
  by (simp add: unsigned_minus_1_eq_mask mask_eq_exp_minus_1)

lemma unat_max64_pred: "unat (- 2 :: uint64) = 18446744073709551614"
  using unat_minus_one [of "- 1 :: uint64"] by (simp add: unat_max64)

lemma missing_heights_top: "missing_heights (- 2) (- 1) = [- 1]"
  by (simp add: missing_heights_def unat_max64 unat_max64_pred)

lemmas mem_defs =
  memLedger_def memBlockStore_def memTxMgr_def memHistMgr_def memConfig_def
  memConstructors_def stubInfo_def lagging_def ahead_def emptyAhead_def inSync_def
  prepared_def fresh_def

lemmas stub_defs = stubBlockStore_def stubTxMgr_def stubInfo_def

text \<open>
  \<open>missing_heights s h\<close> lists exactly the heights above \<open>s\<close> up to \<open>h\<close>, in
  increasing order, and \<open>replay\<close> fetches an initial part of the heights it is given,
  all of them when it returns nil.
\<close>

lemma missing_heights_set: "set (missing_heights s h) = {n. s < n \<and> n \<le> h}"
proof (rule set_eqI)
  fix n :: uint64
  have "set [Suc (unat s) ..< Suc (unat h)] = {k. unat s < k \<and> k \<le> unat h}"
    by (simp only: set_upt) auto
  then have "n \<in> set (missing_heights s h) \<longleftrightarrow>
             (\<exists>k. unat s < k \<and> k \<le> unat h \<and> n = of_nat k)"
    unfolding missing_heights_def set_map by blast
  also have "\<dots> \<longleftrightarrow> unat s < unat n \<and> unat n \<le> unat h"
  proof
    assume "\<exists>k. unat s < k \<and> k \<le> unat h \<and> n = of_nat k"
    then obtain k where k: "unat s < k" "k \<le> unat h" "n = of_nat k" by blast
    from k(2) have "unat (of_nat k :: uint64) = k" by (rule le_unat_uoi)
    with k show "unat s < unat n \<and> unat n \<le> unat h" by simp
  next
    assume "unat s < unat n \<and> unat n \<le> unat h"
    then show "\<exists>k. unat s < k \<and> k \<le> unat h \<and> n = of_nat k"
      by (intro exI [of _ "unat n"]) simp
  qed
  finally show "n \<in> set (missing_heights s h) \<longleftrightarrow> n \<in> {n. s < n \<and> n \<le> h}"
    by (simp add: word_less_nat_alt word_le_nat_alt)
qed

lemma missing_heights_increasing: "sorted_wrt (<) (missing_heights s h)"
proof -
  have "sorted_wrt (\<lambda>i j. (of_nat i :: uint64) < of_nat j) [Suc (unat s) ..< Suc (unat h)]"
  proof (rule sorted_wrt_mono_rel [OF _ sorted_wrt_upt])
    fix i j
    assume "i \<in> set [Suc (unat s) ..< Suc (unat h)]"
       and "j \<in> set [Suc (unat s) ..< Suc (unat h)]"
       and "i < j"
    then have "i \<le> unat h" "j \<le> unat h" by auto
    then have "unat (of_nat i :: uint64) = i" "unat (of_nat j :: uint64) = j"
      by (simp_all add: le_unat_uoi)
    with \<open>i < j\<close> show "(of_nat i :: uint64) < of_nat j"
      by (simp add: word_less_nat_alt)
  qed
  then show ?thesis by (simp only: missing_heights_def sorted_wrt_map)
qed

lemma replay_fetches:
  "replay l ns w = (r, w', cs) \<Longrightarrow>
   prefix (fetched cs) ns \<and> (r = None \<longrightarrow> fetched cs = ns)"
proof (induction ns arbitrary: w cs r w')
  case Nil
  then show ?case by auto
next
  case (Cons n ns)
  obtain blk e1 w1 where f: "RetrieveBlockByNumber (blockStore l) n w = ((blk, e1), w1)"
    by (metis surj_pair)
  obtain vb itx e2 w2 where
    v: "ValidateAndPrepare (txtmgmt l) blk False w1 = ((vb, itx, e2), w2)"
    by (metis surj_pair)
  obtain e3 w3 where c: "TxMgr_Commit (txtmgmt l) w2 = (e3, w3)"
    by (metis surj_pair)
  show ?case
  proof (cases "e1 = None \<and> e2 = None \<and> e3 = None")
    case True
    obtain r0 w0 cs0 where rest: "replay l ns w3 = (r0, w0, cs0)" by (metis surj_pair)
    from Cons.IH [OF rest] Cons.prems f v c True rest show ?thesis by auto
  next
    case False
    with Cons.prems f v c show ?thesis by (auto split: option.splits)
  qed
qed

subsection \<open>Recovery of a lagging state database\<close>

text \<open>
  Claim C1, as amended. Let the block store report height \<open>h\<close> and the state transaction
  manager report savepoint \<open>s\<close> without error, with \<open>s < h\<close> and \<open>h\<close> below
  \<open>2^64 - 1\<close>. Then \<open>recoverStateDB\<close> returns, and after the two reads it does what
  \<open>replay\<close> does on the heights \<open>s + 1, ..., h\<close>: for each height in increasing
  order it fetches the block by number, calls \<open>ValidateAndPrepare\<close> on the fetched block
  with second argument \<open>False\<close>, then calls the state transaction manager's commit; the
  first of these calls that fails ends the recovery, which returns that error and makes no
  further call. When all succeed it returns nil with no pending block.
\<close>

theorem recoverStateDB_replays_missing_heights:
  assumes info: "GetBlockchainInfo (blockStore l) w = ((Some info, e0), w1)"
      and sp: "GetBlockNumFromSavepoint (txtmgmt l) w1 = ((s, None), w2)"
      and lt: "s < Height info"
      and nomax: "Height info \<noteq> - 1"
  shows "recovery_replays l w s (Height info) w2"
proof -
  let ?reads = "[CallGetBlockchainInfo, CallGetBlockNumFromSavepoint]"
  obtain r w' cs where rp: "replay l (missing_heights s (Height info)) w2 = (r, w', cs)"
    by (metis surj_pair)
  have nxt: "unat (s + 1) = Suc (unat s)"
    using lt nomax by (intro unat_succ) simp_all
  have bound: "unat (s + 1) \<le> Suc (unat (Height info))"
    using lt nxt by (simp add: word_less_nat_alt)
  from rp have rp':
    "replay l (map of_nat [unat (s + 1) ..< Suc (unat (Height info))]) w2 = (r, w', cs)"
    by (simp only: missing_heights_def nxt)
  from recover_loop_replay [OF nomax bound rp', of ?reads]
  obtain lr where
    loop: "recover_loop (s + 1) (Height info) (recLedger l) (w2, ?reads) =
             Some (Return r, recLedger lr, w', ?reads @ cs)"
    by blast
  from recover_loop_replay_plain [OF nomax bound rp']
  obtain l' where
    plain: "recover_loop (s + 1) (Height info) l w2 = Some (Return r, l', w')"
    and p: "r = None \<longrightarrow> pendingBlockToCommit l' = None"
    by blast
  have h0: "Height info \<noteq> 0" using lt by auto
  have ne: "s \<noteq> Height info" "\<not> Height info < s" using lt by auto
  have "recoverStateDB (recLedger l) (w, []) =
          Some (Return r, recLedger lr, w', ?reads @ cs)"
    using info sp h0 ne loop by (simp add: recoverStateDB_def)
  moreover have "recoverStateDB l w = Some (Return r, l', w')"
    using info sp h0 ne plain by (simp add: recoverStateDB_def)
  ultimately show ?thesis using rp p by (simp add: recovery_replays_def)
qed

text \<open>
  The theorem at \<open>lagging\<close>: a block store of height 5 whose state database has
  savepoint 3.
\<close>

theorem recoverStateDB_replays_missing_heights_witness:
  "GetBlockchainInfo (blockStore (memLedger False None)) lagging =
     ((Some (stubInfo 5), None), lagging) \<and>
   GetBlockNumFromSavepoint (txtmgmt (memLedger False None)) lagging =
     ((3, None), lagging) \<and>
   (3 :: uint64) < Height (stubInfo 5) \<and> Height (stubInfo 5) \<noteq> - 1 \<and>
   recovery_replays (memLedger False None) lagging 3 (Height (stubInfo 5)) lagging"
  using recoverStateDB_replays_missing_heights
          [of "memLedger False None" lagging "stubInfo 5" None lagging 3 lagging]
  by (simp add: mem_defs)

text \<open>
  At the largest height the counter wraps. On \<open>fullLedger\<close>, with height
  \<open>2^64 - 1\<close> and savepoint \<open>2^64 - 2\<close>, the recovery fetches, prepares and commits
  the last height, then fetches block 0, and returns the error of that fetch. The walk
  over the missing heights is the last height alone, and succeeds.
\<close>

lemma recoverStateDB_at_top_height:
  "map_option (\<lambda>(out, l', wl). (out, wl)) (recoverStateDB (recLedger fullLedger) ((), [])) =
     Some (Return (Some (Error ''block not found'')), (),
           [CallGetBlockchainInfo, CallGetBlockNumFromSavepoint,
            CallRetrieveBlockByNumber (- 1), CallValidateAndPrepare (Some (- 1)) False,
            CallTxMgrCommit, CallRetrieveBlockByNumber 0])"
  by (simp add: recoverStateDB_def fullLedger_def stub_defs recover_loop.simps
        GetBlockByNumber_def)

lemma replay_at_top_height:
  "replay fullLedger [- 1] () =
     (None, (), [CallRetrieveBlockByNumber (- 1), CallValidateAndPrepare (Some (- 1)) False,
                 CallTxMgrCommit])"
  by (simp add: fullLedger_def stub_defs)

text \<open>
  Claim C1 as stated, for every \<open>s < h\<close>, fails at the largest height: with height
  \<open>2^64 - 1\<close> and savepoint \<open>2^64 - 2\<close> the counter wraps to 0 after the last
  height, and the loop goes on to fetch block 0. On \<open>fullLedger\<close> that fetch fails, so
  the recovery returns an error although no step for a height in \<open>s + 1, ..., h\<close> failed.
\<close>

theorem recoverStateDB_wraps_at_top_height:
  "GetBlockchainInfo (blockStore fullLedger) () = ((Some (stubInfo (- 1)), None), ()) \<and>
   GetBlockNumFromSavepoint (txtmgmt fullLedger) () = ((- 2, None), ()) \<and>
   (- 2 :: uint64) < Height (stubInfo (- 1)) \<and>
   \<not> recovery_replays fullLedger () (- 2) (Height (stubInfo (- 1))) ()"
proof -
  from recoverStateDB_at_top_height obtain l' where
    run: "recoverStateDB (recLedger fullLedger) ((), []) =
            Some (Return (Some (Error ''block not found'')), l', (),
                  [CallGetBlockchainInfo, CallGetBlockNumFromSavepoint,
                   CallRetrieveBlockByNumber (- 1), CallValidateAndPrepare (Some (- 1)) False,
                   CallTxMgrCommit, CallRetrieveBlockByNumber 0])"
    by auto
  have "\<not> recovery_replays fullLedger () (- 2) (- 1) ()"
    unfolding recovery_replays_def missing_heights_top replay_at_top_height
    by (simp add: run)
  moreover have
    "GetBlockchainInfo (blockStore fullLedger) () = ((Some (stubInfo (- 1)), None), ())"
    "GetBlockNumFromSavepoint (txtmgmt fullLedger) () = ((- 2, None), ())"
    "(- 2 :: uint64) < Height (stubInfo (- 1))"
    "Height (stubInfo (- 1)) = - 1"
    by (simp_all add: fullLedger_def stub_defs)
  ultimately show ?thesis by simp
qed

text \<open>
  When block 0 can be fetched as well and no call fails, the loop at the largest height
  never returns.
\<close>

lemma recover_loop_never_returns:
  assumes ret: "recover_loop bn h l w = Some y"
  shows "\<not> (h = - 1 \<and> blockStore l = blockStore endlessLedger \<and>
            txtmgmt l = txtmgmt endlessLedger)"
proof (rule recover_loop.raw_induct
         [where P = "\<lambda>bn h l w y. \<not> (h = - 1 \<and> blockStore l = blockStore endlessLedger \<and>
                                        txtmgmt l = txtmgmt endlessLedger)",
          OF _ ret],
       goal_cases)
  case (1 f bn h l w y)
  show ?case
  proof
    assume a: "h = - 1 \<and> blockStore l = blockStore endlessLedger \<and>
               txtmgmt l = txtmgmt endlessLedger"
    let ?l = "l\<lparr>pendingBlockToCommit := Some bn\<rparr>"
    from a 1(2) have "f (bn + 1) h ?l w = Some y"
      by (simp add: GetBlockByNumber_def endlessLedger_def stub_defs)
    then have "\<not> (h = - 1 \<and> blockStore ?l = blockStore endlessLedger \<and>
                  txtmgmt ?l = txtmgmt endlessLedger)"
      by (rule 1(1))
    with a show False by simp
  qed
qed

lemma recoverStateDB_never_returns: "recoverStateDB endlessLedger () = None"
proof -
  have "recover_loop (- 1) (- 1) endlessLedger () = None"
    using recover_loop_never_returns [of "- 1" "- 1" endlessLedger "()"]
    by (cases "recover_loop (- 1) (- 1) endlessLedger ()") auto
  then show ?thesis
    by (simp add: recoverStateDB_def endlessLedger_def stub_defs)
qed

text \<open>
  The scenario of the specification: height 5, savepoint 3. Blocks 4 and 5 are replayed in
  this order, and the savepoint ends at 5.
\<close>

lemma recoverStateDB_lagging_scenario:
  "map_option (\<lambda>(out, l', wl). (out, pendingBlockToCommit l', wl))
     (recoverStateDB (recLedger (memLedger False None)) (lagging, [])) =
   Some (Return None, None, lagging\<lparr>mem_savepoint := 5\<rparr>,
         [CallGetBlockchainInfo, CallGetBlockNumFromSavepoint,
          CallRetrieveBlockByNumber 4, CallValidateAndPrepare (Some (4, [True])) False,
          CallTxMgrCommit,
          CallRetrieveBlockByNumber 5, CallValidateAndPrepare (Some (5, [False])) False,
          CallTxMgrCommit])"
  by (simp add: recoverStateDB_def mem_defs recover_loop.simps
        GetBlockByNumber_def)

subsection \<open>A state database ahead of the block store\<close>

text \<open>
  Claim C2, as amended. Let the block store report a height that is not 0 and the state
  transaction manager report, without error, a savepoint strictly greater than that
  height. Then \<open>recoverStateDB\<close> returns the error about the block storage being behind
  the savepoint; the only collaborator calls it makes are the two reads, so no block is
  fetched, prepared or committed, and the ledger is left as it was. \<open>NewKVLedger\<close>, on
  a ledger built from such collaborators, panics with that error and returns no ledger.
\<close>

theorem recoverStateDB_savepoint_ahead:
  assumes info: "GetBlockchainInfo (blockStore l) w = ((Some info, e0), w1)"
      and sp: "GetBlockNumFromSavepoint (txtmgmt l) w1 = ((s, None), w2)"
      and gt: "Height info < s"
      and h0: "Height info \<noteq> 0"
  shows "recoverStateDB (recLedger l) (w, log) =
           Some (Return (Some (Error
                   ''BlockStorage height is behind savepoint by %d blocks. Recovery the BlockStore first'')),
                 recLedger l, w2, log @ [CallGetBlockchainInfo, CallGetBlockNumFromSavepoint]) \<and>
         (buildKVLedger cfg new conf w0 = (l, w) \<longrightarrow>
            NewKVLedger cfg new conf w0 =
              Some (Panic (PanicError (Error
                 ''Error during state DB recovery:BlockStorage height is behind savepoint by %d blocks. Recovery the BlockStore first'')),
                 w2))"
proof -
  have ne: "s \<noteq> Height info" using gt by auto
  have "recoverStateDB l w =
          Some (Return (Some (Error
                  ''BlockStorage height is behind savepoint by %d blocks. Recovery the BlockStore first'')),
                l, w2)"
    using info sp gt h0 ne by (simp add: recoverStateDB_def)
  then have "buildKVLedger cfg new conf w0 = (l, w) \<longrightarrow>
            NewKVLedger cfg new conf w0 =
              Some (Panic (PanicError (Error
                 ''Error during state DB recovery:BlockStorage height is behind savepoint by %d blocks. Recovery the BlockStore first'')),
                 w2)"
    by (simp add: NewKVLedger_def Errorf_def)
  moreover have "recoverStateDB (recLedger l) (w, log) =
           Some (Return (Some (Error
                   ''BlockStorage height is behind savepoint by %d blocks. Recovery the BlockStore first'')),
                 recLedger l, w2, log @ [CallGetBlockchainInfo, CallGetBlockNumFromSavepoint])"
    using info sp gt h0 ne by (simp add: recoverStateDB_def)
  ultimately show ?thesis by blast
qed

text \<open>The scenario of the specification: block store height 3, savepoint 5.\<close>

theorem recoverStateDB_savepoint_ahead_witness:
  "GetBlockchainInfo (blockStore (memLedger False None)) ahead =
     ((Some (stubInfo 3), None), ahead) \<and>
   GetBlockNumFromSavepoint (txtmgmt (memLedger False None)) ahead = ((5, None), ahead) \<and>
   Height (stubInfo 3) < (5 :: uint64) \<and> Height (stubInfo 3) \<noteq> 0 \<and>
   buildKVLedger (memConfig False) memConstructors (NewConf ''/var/ledger'' 1024) ahead =
     (memLedger False None, ahead) \<and>
   recoverStateDB (recLedger (memLedger False None)) (ahead, []) =
     Some (Return (Some (Error
             ''BlockStorage height is behind savepoint by %d blocks. Recovery the BlockStore first'')),
           recLedger (memLedger False None), ahead,
           [CallGetBlockchainInfo, CallGetBlockNumFromSavepoint]) \<and>
   NewKVLedger (memConfig False) memConstructors (NewConf ''/var/ledger'' 1024) ahead =
     Some (Panic (PanicError (Error
             ''Error during state DB recovery:BlockStorage height is behind savepoint by %d blocks. Recovery the BlockStore first'')),
           ahead)"
  using recoverStateDB_savepoint_ahead
    [where l = "memLedger False None" and w = ahead and info = "stubInfo 3"
       and ?e0.0 = None and ?w1.0 = ahead and s = 5 and ?w2.0 = ahead
       and cfg = "memConfig False" and new = memConstructors
       and conf = "NewConf ''/var/ledger'' 1024" and ?w0.0 = ahead and log = "[]"]
  by (simp add: mem_defs buildKVLedger_def)

text \<open>
  Claim C2 as stated, for every savepoint above the height, fails at height 0: the
  recovery returns nil as soon as it sees an empty block store and never reads the
  savepoint. With an empty block store and savepoint 5, \<open>recoverStateDB\<close> returns nil
  after the blockchain-info read alone, and \<open>NewKVLedger\<close> returns the ledger.
\<close>

theorem recoverStateDB_savepoint_ahead_of_empty_store:
  "GetBlockchainInfo (blockStore (memLedger False None)) emptyAhead =
     ((Some (stubInfo 0), None), emptyAhead) \<and>
   GetBlockNumFromSavepoint (txtmgmt (memLedger False None)) emptyAhead =
     ((5, None), emptyAhead) \<and>
   Height (stubInfo 0) < (5 :: uint64) \<and>
   recoverStateDB (recLedger (memLedger False None)) (emptyAhead, []) =
     Some (Return None, recLedger (memLedger False None), emptyAhead,
           [CallGetBlockchainInfo]) \<and>
   NewKVLedger (memConfig False) memConstructors (NewConf ''/var/ledger'' 1024) emptyAhead =
     Some (Return (memLedger False None), emptyAhead)"
  by (simp add: mem_defs buildKVLedger_def recoverStateDB_def NewKVLedger_def)

subsection \<open>Commit without a pending block\<close>

text \<open>
  Claim C5. For every ledger with no pending block, every configuration and every world,
  \<open>Commit\<close> panics with the "Nothing to commit" error. It neither returns nil nor
  returns an error. The ledger and the world are unchanged, and with recording
  collaborators the log is unchanged: no method of the block store, the state transaction
  manager or the history manager is called.
\<close>

theorem Commit_without_pending_block_panics:
  assumes "pendingBlockToCommit l = None"
  shows "Commit cfg l w =
           (Panic (PanicError (Error
              ''Nothing to commit. RemoveInvalidTransactionsAndPrepare() method should have been called and should not have thrown error'')),
            l, w) \<and>
         snd (Commit cfg (recLedger l) (w, log)) = (recLedger l, w, log)"
  using assms by (simp add: Commit_def)

theorem Commit_without_pending_block_panics_witness:
  "pendingBlockToCommit (memLedger True None) = None \<and>
   Commit (memConfig True) (memLedger True None) inSync =
     (Panic (PanicError (Error
        ''Nothing to commit. RemoveInvalidTransactionsAndPrepare() method should have been called and should not have thrown error'')),
      memLedger True None, inSync) \<and>
   snd (Commit (memConfig True) (recLedger (memLedger True None)) (inSync, [])) =
     (recLedger (memLedger True None), inSync, [])"
  using Commit_without_pending_block_panics
          [of "memLedger True None" "memConfig True" inSync "[]"]
  by (simp add: memLedger_def)

subsection \<open>A failing append\<close>

text \<open>
  Claim C6. If \<open>Commit\<close> is called with a pending block and the block store's
  \<open>AddBlock\<close> returns an error, \<open>Commit\<close> returns that error as an ordinary return
  value (no panic). The ledger is unchanged, so the pending block stays in place. The
  world is the one that the failed \<open>AddBlock\<close> call left, and with recording
  collaborators that call is the only one in the log: neither the state transaction
  manager nor the history manager is called.
\<close>

theorem Commit_append_failure_returns_error:
  assumes "pendingBlockToCommit l \<noteq> None"
      and "AddBlock (blockStore l) (pendingBlockToCommit l) w = (Some err, w1)"
  shows "Commit cfg l w = (Return (Some err), l, w1) \<and>
         Commit cfg (recLedger l) (w, log) =
           (Return (Some err), recLedger l, w1,
            log @ [CallAddBlock (pendingBlockToCommit l)])"
  using assms by (simp add: Commit_def)

theorem Commit_append_failure_returns_error_witness:
  "pendingBlockToCommit fullDiskLedger \<noteq> None \<and>
   AddBlock (blockStore fullDiskLedger) (pendingBlockToCommit fullDiskLedger) () =
     (Some (Error ''no space left on device''), ()) \<and>
   Commit (memConfig True) fullDiskLedger () =
     (Return (Some (Error ''no space left on device'')), fullDiskLedger, ()) \<and>
   Commit (memConfig True) (recLedger fullDiskLedger) ((), []) =
     (Return (Some (Error ''no space left on device'')), recLedger fullDiskLedger, (),
      [CallAddBlock (Some 7)])"
  using Commit_append_failure_returns_error
          [of fullDiskLedger "()" "Error ''no space left on device''" "()"
              "memConfig True" "[]"]
  by (simp add: fullDiskLedger_def stub_defs)

subsection \<open>Pruning\<close>

text \<open>
  Claim C10. For every ledger, every prune policy and every world, \<open>Prune\<close> returns the
  error "Not yet implemented", which is not nil. The ledger (with its pending block) and
  the world are unchanged, and with recording collaborators the log is unchanged: no
  collaborator is called.
\<close>

theorem Prune_not_implemented:
  "fst (Prune l policy w) = Some (Error ''Not yet implemented'') \<and>
   fst (Prune l policy w) \<noteq> None \<and>
   snd (Prune l policy w) = (l, w) \<and>
   snd (Prune (recLedger l) policy (w, log)) = (recLedger l, w, log)"
  by (simp add: Prune_def)

subsection \<open>The order of a commit\<close>

text \<open>
  Claim C3. Let \<open>Commit\<close> be called with pending block \<open>b\<close>, on recording
  collaborators with an empty log. The calls it makes are an initial part of: append
  \<open>b\<close> to the block store, commit the state transaction manager, commit \<open>b\<close> to the
  history manager; the history manager is called only when history is enabled. Each call
  runs on the world that the call before it left. \<open>Commit\<close> returns nil exactly when the
  append and the state commit succeed and, if history is enabled, the history manager is
  present and its commit succeeds; then the calls are the append, the state commit and,
  if and only if history is enabled, the history commit, in this order, and the pending
  block is cleared. On every other path the ledger keeps its pending block, so clearing is
  the last step.
\<close>

theorem Commit_order:
  assumes pend: "pendingBlockToCommit l = Some b"
      and run: "Commit cfg (recLedger l) (w, []) = (out, l', w', calls)"
  shows "prefix calls [CallAddBlock (Some b), CallTxMgrCommit, CallHistMgrCommit (Some b)] \<and>
         (CallHistMgrCommit (Some b) \<in> set calls \<longrightarrow> IsHistoryDBEnabled cfg) \<and>
         (out = Return None \<longleftrightarrow>
            (\<exists>w1 w2. AddBlock (blockStore l) (Some b) w = (None, w1) \<and>
                     TxMgr_Commit (txtmgmt l) w1 = (None, w2) \<and>
                     (if IsHistoryDBEnabled cfg
                      then \<exists>h. historymgmt l = Some h \<and>
                               HistMgr_Commit h (Some b) w2 = (None, w')
                      else w' = w2))) \<and>
         (out = Return None \<longrightarrow>
            calls = [CallAddBlock (Some b), CallTxMgrCommit] @
                    (if IsHistoryDBEnabled cfg then [CallHistMgrCommit (Some b)] else []) \<and>
            l' = recLedger (l\<lparr>pendingBlockToCommit := None\<rparr>)) \<and>
         (out \<noteq> Return None \<longrightarrow> l' = recLedger l)"
  using assms
  by (auto simp: Commit_def split: prod.splits option.splits if_splits)

text \<open>A commit of block 2 with history enabled.\<close>

theorem Commit_order_witness:
  "pendingBlockToCommit (memLedger True (Some (2, [True, True]))) = Some (2, [True, True]) \<and>
   Commit (memConfig True) (recLedger (memLedger True (Some (2, [True, True]))))
       (prepared, []) =
     (Return None, recLedger (memLedger True None),
      \<lparr>mem_blocks = [(1, [True]), (2, [True, True])], mem_savepoint = 2,
       mem_staged = None, mem_history = [(1, [True]), (2, [True, True])]\<rparr>,
      [CallAddBlock (Some (2, [True, True])), CallTxMgrCommit,
       CallHistMgrCommit (Some (2, [True, True]))]) \<and>
   prefix [CallAddBlock (Some (2, [True, True])), CallTxMgrCommit,
           CallHistMgrCommit (Some (2, [True, True]))]
          [CallAddBlock (Some (2, [True, True])), CallTxMgrCommit,
           CallHistMgrCommit (Some (2, [True, True]))] \<and>
   IsHistoryDBEnabled (memConfig True)"
proof -
  have pend: "pendingBlockToCommit (memLedger True (Some (2, [True, True]))) =
                Some (2, [True, True])"
    by (simp add: memLedger_def)
  have run: "Commit (memConfig True) (recLedger (memLedger True (Some (2, [True, True]))))
               (prepared, []) =
             (Return None, recLedger (memLedger True None),
              \<lparr>mem_blocks = [(1, [True]), (2, [True, True])], mem_savepoint = 2,
               mem_staged = None, mem_history = [(1, [True]), (2, [True, True])]\<rparr>,
              [CallAddBlock (Some (2, [True, True])), CallTxMgrCommit,
               CallHistMgrCommit (Some (2, [True, True]))])"
    by (simp add: Commit_def mem_defs)
  from Commit_order [OF pend run] pend run show ?thesis by simp
qed

subsection \<open>Which block a commit appends\<close>




subsection \<open>Rollback\<close>

text \<open>
  Claim C7. Let the state transaction manager keep the contract on staged updates for a
  durable view of the world (the committed state, the savepoint, the block-store height).
  Let \<open>RemoveInvalidTransactionsAndPrepare\<close> run on a block, whatever it returns, with
  recording collaborators and an empty log, and let \<open>Rollback\<close> follow. Then the only
  calls made are the prepare and the state transaction manager's rollback: the block
  store and the history manager are not called and nothing is committed. The durable view
  after the rollback is the one before the prepare, and the pending block is cleared. A
  second \<open>Rollback\<close>, now with no pending block, leaves the ledger and the world as they
  are; it hands the call to the state transaction manager once more.
\<close>

theorem Rollback_discards_prepare:
  assumes contract: "staging_contract durable (txtmgmt l)"
      and prep: "RemoveInvalidTransactionsAndPrepare (recLedger l) block (w, []) =
                   (res, l1, w1, c1)"
      and rb: "Rollback l1 (w1, c1) = (l2, w2, c2)"
  shows "c2 = [CallValidateAndPrepare block True, CallTxMgrRollback] \<and>
         durable w2 = durable w \<and>
         pendingBlockToCommit l2 = None \<and>
         Rollback l2 (w2, c2) = (l2, w2, c2 @ [CallTxMgrRollback])"
proof -
  obtain r wp where v: "ValidateAndPrepare (txtmgmt l) block True w = (r, wp)"
    by (metis surj_pair)
  from contract v have d1: "durable wp = durable w"
    by (metis staging_contract_def snd_conv)
  from contract have d2: "durable (TxMgr_Rollback (txtmgmt l) wp) = durable wp"
    by (simp add: staging_contract_def)
  from contract have idem:
    "TxMgr_Rollback (txtmgmt l) (TxMgr_Rollback (txtmgmt l) wp) =
       TxMgr_Rollback (txtmgmt l) wp"
    by (simp add: staging_contract_def)
  show ?thesis
    using prep rb v d1 d2 idem
    by (auto simp: RemoveInvalidTransactionsAndPrepare_def Rollback_def
             split: prod.splits if_splits)
qed

text \<open>The in-memory state transaction manager keeps the contract.\<close>

lemma memTxMgr_staging_contract: "staging_contract mem_durable memTxMgr"
  by (auto simp: staging_contract_def mem_durable_def memTxMgr_def
           split: option.splits prod.splits)

theorem Rollback_discards_prepare_witness:
  "staging_contract mem_durable (txtmgmt (memLedger False None)) \<and>
   RemoveInvalidTransactionsAndPrepare (recLedger (memLedger False None))
       (Some (3, [True, False])) (inSync, []) =
     ((Some (3, [True]), [1], None), recLedger (memLedger False (Some (3, [True]))),
      inSync\<lparr>mem_staged := Some (3, [True])\<rparr>,
      [CallValidateAndPrepare (Some (3, [True, False])) True]) \<and>
   Rollback (recLedger (memLedger False (Some (3, [True]))))
       (inSync\<lparr>mem_staged := Some (3, [True])\<rparr>,
        [CallValidateAndPrepare (Some (3, [True, False])) True]) =
     (recLedger (memLedger False None), inSync,
      [CallValidateAndPrepare (Some (3, [True, False])) True, CallTxMgrRollback]) \<and>
   mem_durable inSync = mem_durable inSync \<and>
   pendingBlockToCommit (recLedger (memLedger False None)) = None \<and>
   Rollback (recLedger (memLedger False None))
       (inSync, [CallValidateAndPrepare (Some (3, [True, False])) True, CallTxMgrRollback]) =
     (recLedger (memLedger False None), inSync,
      [CallValidateAndPrepare (Some (3, [True, False])) True, CallTxMgrRollback,
       CallTxMgrRollback])"
proof -
  have contract: "staging_contract mem_durable (txtmgmt (memLedger False None))"
    by (simp add: memLedger_def memTxMgr_staging_contract)
  have prep: "RemoveInvalidTransactionsAndPrepare (recLedger (memLedger False None))
                (Some (3, [True, False])) (inSync, []) =
              ((Some (3, [True]), [1], None), recLedger (memLedger False (Some (3, [True]))),
               inSync\<lparr>mem_staged := Some (3, [True])\<rparr>,
               [CallValidateAndPrepare (Some (3, [True, False])) True])"
    by (simp add: RemoveInvalidTransactionsAndPrepare_def mem_defs recLedger_def)
  have rb: "Rollback (recLedger (memLedger False (Some (3, [True]))))
              (inSync\<lparr>mem_staged := Some (3, [True])\<rparr>,
               [CallValidateAndPrepare (Some (3, [True, False])) True]) =
            (recLedger (memLedger False None), inSync,
             [CallValidateAndPrepare (Some (3, [True, False])) True, CallTxMgrRollback])"
    by (simp add: Rollback_def mem_defs)
  from Rollback_discards_prepare [OF contract prep rb] contract prep rb
  show ?thesis by simp
qed

subsection \<open>Recovery of a ledger that is in sync\<close>



text \<open>
  The empty ledger of the specification's first scenario, and a second recovery right
  after the recovery of the lagging ledger: both make reads only.
\<close>

lemma recoverStateDB_fresh_scenario:
  "recoverStateDB (recLedger (memLedger False None)) (fresh, []) =
     Some (Return None, recLedger (memLedger False None), fresh, [CallGetBlockchainInfo])"
  by (simp add: recoverStateDB_def mem_defs)

lemma recoverStateDB_twice_lagging_scenario:
  "map_option (\<lambda>(out, l', wl). (out, pendingBlockToCommit l', wl))
     (recoverStateDB (recLedger (memLedger False None))
        (lagging\<lparr>mem_savepoint := 5\<rparr>, [])) =
   Some (Return None, None, lagging\<lparr>mem_savepoint := 5\<rparr>,
         [CallGetBlockchainInfo, CallGetBlockNumFromSavepoint])"
  by (simp add: recoverStateDB_def mem_defs)

subsection \<open>The error of the blockchain-info read\<close>

text \<open>
  Claim C9. The claim asks that an error returned by the blockchain-info read during
  \<open>recoverStateDB\<close> is surfaced. The code drops it: on a block store that answers the
  read with an info struct together with an error, \<open>recoverStateDB\<close> returns nil, both
  when the struct reports height 0 and when it reports a height equal to the savepoint,
  and \<open>NewKVLedger\<close> returns the ledger.
\<close>

theorem recoverStateDB_drops_info_error:
  "GetBlockchainInfo (blockStore (brokenInfoLedger 0)) () =
     ((Some (stubInfo 0), Some (Error ''blockchain info unavailable'')), ()) \<and>
   recoverStateDB (brokenInfoLedger 0) () = Some (Return None, brokenInfoLedger 0, ()) \<and>
   GetBlockchainInfo (blockStore (brokenInfoLedger 5)) () =
     ((Some (stubInfo 5), Some (Error ''blockchain info unavailable'')), ()) \<and>
   recoverStateDB (brokenInfoLedger 5) () = Some (Return None, brokenInfoLedger 5, ()) \<and>
   NewKVLedger (memConfig False) (brokenInfoConstructors 5) (NewConf ''/var/ledger'' 1024) () =
     Some (Return (brokenInfoLedger 5), ())"
  by (simp add: recoverStateDB_def NewKVLedger_def buildKVLedger_def brokenInfoLedger_def
        brokenInfoConstructors_def memConfig_def stub_defs)

text \<open>
  When the read returns a nil info pointer, the dereference panics, whatever the error.
\<close>

lemma recoverStateDB_nil_info:
  "GetBlockchainInfo (blockStore l) w = ((None, e0), w1) \<Longrightarrow>
   recoverStateDB l w = Some (Panic NilDereference, l, w1)"
  by (simp add: recoverStateDB_def)

text \<open>
  Every other collaborator error met by the recovery and by \<open>Commit\<close> ends the call with
  that error, returned or wrapped in a panic.
\<close>

lemma recoverStateDB_savepoint_error:
  "GetBlockchainInfo (blockStore l) w = ((Some info, e0), w1) \<Longrightarrow> Height info \<noteq> 0 \<Longrightarrow>
   GetBlockNumFromSavepoint (txtmgmt l) w1 = ((s, Some e), w2) \<Longrightarrow>
   recoverStateDB l w = Some (Return (Some e), l, w2)"
  by (simp add: recoverStateDB_def)

lemma replay_error_is_collaborator_error:
  "replay l ns w = (Some e, w', cs) \<Longrightarrow>
   \<exists>n \<in> set ns. \<exists>w0 blk.
      snd (fst (RetrieveBlockByNumber (blockStore l) n w0)) = Some e \<or>
      snd (snd (fst (ValidateAndPrepare (txtmgmt l) blk False w0))) = Some e \<or>
      fst (TxMgr_Commit (txtmgmt l) w0) = Some e"
proof (induction ns arbitrary: w cs)
  case Nil
  then show ?case by simp
next
  case (Cons n ns)
  obtain blk e1 w1 where f: "RetrieveBlockByNumber (blockStore l) n w = ((blk, e1), w1)"
    by (metis surj_pair)
  obtain vb itx e2 w2 where
    v: "ValidateAndPrepare (txtmgmt l) blk False w1 = ((vb, itx, e2), w2)"
    by (metis surj_pair)
  obtain e3 w3 where c: "TxMgr_Commit (txtmgmt l) w2 = (e3, w3)"
    by (metis surj_pair)
  show ?case
  proof (cases "e1 = None \<and> e2 = None \<and> e3 = None")
    case True
    with Cons.prems f v c obtain cs0 where "replay l ns w3 = (Some e, w', cs0)"
      by (auto split: prod.splits)
    from Cons.IH [OF this] show ?thesis by auto
  next
    case False
    with Cons.prems f v c have "e1 = Some e \<or> e2 = Some e \<or> e3 = Some e"
      by (auto split: option.splits)
    then show ?thesis
    proof (elim disjE)
      assume "e1 = Some e"
      with f have "snd (fst (RetrieveBlockByNumber (blockStore l) n w)) = Some e" by simp
      then show ?thesis by auto
    next
      assume "e2 = Some e"
      with v have "snd (snd (fst (ValidateAndPrepare (txtmgmt l) blk False w1))) = Some e"
        by simp
      then show ?thesis by auto
    next
      assume "e3 = Some e"
      with c have "fst (TxMgr_Commit (txtmgmt l) w2) = Some e" by simp
      then show ?thesis by auto
    qed
  qed
qed

lemma Commit_state_failure_panics:
  "pendingBlockToCommit l \<noteq> None \<Longrightarrow>
   AddBlock (blockStore l) (pendingBlockToCommit l) w = (None, w1) \<Longrightarrow>
   TxMgr_Commit (txtmgmt l) w1 = (Some e, w2) \<Longrightarrow>
   Commit cfg l w =
     (Panic (PanicError (Error (''Error during commit to txmgr:'' @ error_message e))), l, w2)"
  by (simp add: Commit_def Errorf_def)

lemma Commit_history_failure_panics:
  "pendingBlockToCommit l \<noteq> None \<Longrightarrow>
   AddBlock (blockStore l) (pendingBlockToCommit l) w = (None, w1) \<Longrightarrow>
   TxMgr_Commit (txtmgmt l) w1 = (None, w2) \<Longrightarrow>
   IsHistoryDBEnabled cfg \<Longrightarrow> historymgmt l = Some h \<Longrightarrow>
   HistMgr_Commit h (pendingBlockToCommit l) w2 = (Some e, w3) \<Longrightarrow>
   Commit cfg l w =
     (Panic (PanicError (Error (''Error during commit to txthistory:'' @ error_message e))),
      l, w3)"
  by (simp add: Commit_def Errorf_def)

end
